theory Spec2Isabelle
  imports Main
begin

section \<open>The RChain node client (node-client/RChain.py)\<close>

text \<open>
  The client is a command line program with three modes (web UI, inline code, file)
  and a Tornado request handler \<open>RNodeUI\<close> serving one page. Everything outside the
  module is a parameter of the model, as it is a parameter of \<open>main\<close> in the source:
  the gRPC channel with the node's replies and the IOLoop. What the program does to
  the outside (RPC calls, lines printed, the port opened) is returned as a trace.
\<close>

subsection \<open>Python's string operations\<close>

text \<open>
  \<open>str(n)\<close> for an integer, as \<open>'%s' % n\<close> formats it: decimal digits, a minus sign
  for a negative number.
\<close>

fun digits :: "nat \<Rightarrow> string" where
  "digits n =
     (if n < 10 then [''0123456789'' ! n] else digits (n div 10) @ [''0123456789'' ! (n mod 10)])"

declare digits.simps [simp del]

definition str_int :: "int \<Rightarrow> string" where
  "str_int i = (if i < 0 then CHR ''-'' # digits (nat (- i)) else digits (nat i))"

text \<open>
  \<open>s.startswith(t)\<close>, and \<open>s.replace(old, new)\<close>: the occurrences of \<open>old\<close> are found
  from the left and do not overlap; the scan goes on behind each occurrence. For an empty
  \<open>old\<close> Python puts \<open>new\<close> before every character and at the end.
\<close>

fun startswith :: "string \<Rightarrow> string \<Rightarrow> bool" where
  "startswith s [] = True"
| "startswith [] (t # ts) = False"
| "startswith (c # cs) (t # ts) = (c = t \<and> startswith cs ts)"

function replace_from :: "string \<Rightarrow> string \<Rightarrow> string \<Rightarrow> string" where
  "replace_from old new [] = []"
| "replace_from old new (c # cs) =
     (if old \<noteq> [] \<and> startswith (c # cs) old
      then new @ replace_from old new (drop (length old) (c # cs))
      else c # replace_from old new cs)"
  by pat_completeness auto
termination
  by (relation "measure (\<lambda>(old, new, s). length s)") auto

definition replace :: "string \<Rightarrow> string \<Rightarrow> string \<Rightarrow> string" where
  "replace s old new =
     (if old = [] then new @ concat (map (\<lambda>c. c # new) s) else replace_from old new s)"

text \<open>
  \<open>s.split(sep)\<close> for a separator that is not empty (an empty one raises ValueError in
  Python; the only call here passes a literal): the pieces between the occurrences of
  \<open>sep\<close>, found from the left without overlap.
\<close>

function split_from :: "string \<Rightarrow> string \<Rightarrow> string list" where
  "split_from sep [] = [[]]"
| "split_from sep (c # cs) =
     (if sep \<noteq> [] \<and> startswith (c # cs) sep
      then [] # split_from sep (drop (length sep) (c # cs))
      else (case split_from sep cs of
              p # ps \<Rightarrow> (c # p) # ps
            | [] \<Rightarrow> [[c]]))"
  by pat_completeness auto
termination
  by (relation "measure (\<lambda>(sep, s). length s)") auto

definition split :: "string \<Rightarrow> string \<Rightarrow> string list" where
  "split s sep = split_from sep s"

subsection \<open>The page template\<close>

text \<open>
  The class attribute \<open>RNodeUI.markup\<close>, character for character. The four constants
  after it are the pieces between its three markers; \<open>markup_split\<close> below proves
  that they are what \<open>markup.split('<!-- PART -->')\<close> returns.
\<close>

definition markup :: string where
  \<open>markup =
     ''\<newline>'' @
     ''    <!doctype html>\<newline>'' @
     ''    <html>\<newline>'' @
     ''    <head><title>rnode diagnostics</title></head>\<newline>'' @
     ''    <body>\<newline>'' @
     ''    <h1>rnode</h1>\<newline>'' @
     ''    <address>\<newline>'' @
     ''    <b>pre-release</b> for the\<newline>'' @
     ''    <a href="https://developer.rchain.coop/">RChain Developer</a>\<newline>'' @
     ''    community\<newline>'' @
     ''    </address>\<newline>'' @
     ''\<newline>'' @
     ''    <h2>Peers</h2>\<newline>'' @
     ''    <ul>\<newline>'' @
     ''    <!-- PART -->\<newline>'' @
     ''    </ul>\<newline>'' @
     ''\<newline>'' @
     ''    <h2>Rholang and RSpace</h2>\<newline>'' @
     ''    <form action="" method="post">\<newline>'' @
     ''    <textarea name="rho1" cols="40" rows="10"><!-- PART --></textarea>\<newline>'' @
     ''    <br />\<newline>'' @
     ''    <input type="submit" value="Run" />\<newline>'' @
     ''    </form>\<newline>'' @
     ''\<newline>'' @
     ''    <pre id="store">\<newline>'' @
     ''    <!-- PART -->\<newline>'' @
     ''    </pre>\<newline>'' @
     ''    </body>\<newline>'' @
     ''    </html>\<newline>'' @
     ''    ''\<close>

definition markup_top :: string where
  \<open>markup_top =
     ''\<newline>'' @
     ''    <!doctype html>\<newline>'' @
     ''    <html>\<newline>'' @
     ''    <head><title>rnode diagnostics</title></head>\<newline>'' @
     ''    <body>\<newline>'' @
     ''    <h1>rnode</h1>\<newline>'' @
     ''    <address>\<newline>'' @
     ''    <b>pre-release</b> for the\<newline>'' @
     ''    <a href="https://developer.rchain.coop/">RChain Developer</a>\<newline>'' @
     ''    community\<newline>'' @
     ''    </address>\<newline>'' @
     ''\<newline>'' @
     ''    <h2>Peers</h2>\<newline>'' @
     ''    <ul>\<newline>'' @
     ''    ''\<close>

definition markup_form :: string where
  \<open>markup_form =
     ''\<newline>'' @
     ''    </ul>\<newline>'' @
     ''\<newline>'' @
     ''    <h2>Rholang and RSpace</h2>\<newline>'' @
     ''    <form action="" method="post">\<newline>'' @
     ''    <textarea name="rho1" cols="40" rows="10">''\<close>

definition markup_pre :: string where
  \<open>markup_pre =
     ''</textarea>\<newline>'' @
     ''    <br />\<newline>'' @
     ''    <input type="submit" value="Run" />\<newline>'' @
     ''    </form>\<newline>'' @
     ''\<newline>'' @
     ''    <pre id="store">\<newline>'' @
     ''    ''\<close>

definition markup_end :: string where
  \<open>markup_end =
     ''\<newline>'' @
     ''    </pre>\<newline>'' @
     ''    </body>\<newline>'' @
     ''    </html>\<newline>'' @
     ''    ''\<close>

subsection \<open>The node, errors and traces\<close>

text \<open>
  The exceptions that leave the module's functions: \<open>IndexError\<close> from indexing
  \<open>argv\<close>, \<open>UnboundLocalError\<close> from reading a local that was never assigned,
  \<open>ValueError\<close> from unpacking a sequence of the wrong length, \<open>RpcError\<close> raised by
  a gRPC stub when the call fails, and Tornado's \<open>MissingArgumentError\<close> from
  \<open>get_body_argument\<close>.
\<close>

datatype error = IndexError | UnboundLocalError | ValueError | RpcError | MissingArgumentError

text \<open>
  A channel to the node, as the stubs built on it see it: for each operation the
  \<open>output\<close> (or \<open>peers\<close>) field of the reply, or \<open>None\<close> when the call raises.
  \<open>ReplStub(channel)\<close> and \<open>DiagnosticsStub(channel)\<close> are typed views of the same
  channel, so \<open>replCh\<close> and \<open>diagCh\<close> are both modelled by it.
\<close>

record channel =
  Run :: "string \<Rightarrow> string option"
  Eval :: "string \<Rightarrow> string option"
  ListPeers :: "string list option"

datatype rpc = RunCall string | EvalCall string | ListPeersCall

subsection \<open>The request handler \<open>RNodeUI\<close>\<close>

text \<open>
  The handler object: the two stubs, the two strings set by \<open>initialize\<close>, and the
  output buffer of the base class, to which \<open>self.write\<close> appends a chunk.
\<close>

record RNodeUI =
  diagCh :: channel
  replCh :: channel
  rholang_code :: string
  rspace_contents :: string
  write_buffer :: "string list"

definition initialize :: "channel \<Rightarrow> channel \<Rightarrow> RNodeUI" where
  "initialize diagCh' replCh' =
     \<lparr>diagCh = diagCh', replCh = replCh', rholang_code = [], rspace_contents = [],
      write_buffer = []\<rparr>"

definition self_write :: "string \<Rightarrow> RNodeUI \<Rightarrow> RNodeUI" where
  "self_write chunk self = self\<lparr>write_buffer := write_buffer self @ [chunk]\<rparr>"

text \<open>
  \<open>get\<close> and \<open>post\<close> return the exception raised, if any, the handler as the method
  left it, and the RPC calls the method made, in order. The argument \<open>rho1\<close> of \<open>post\<close>
  is what \<open>self.get_body_argument('rho1')\<close> returns, \<open>None\<close> when it raises.
\<close>

definition get :: "RNodeUI \<Rightarrow> (error + unit) \<times> RNodeUI \<times> rpc list" where
  "get self =
     (case split markup ''<!-- PART -->'' of
        [mtop1, mform2, mf3, m4] \<Rightarrow>
          (let s1 = self_write mtop1 self in
           case ListPeers (diagCh s1) of
             None \<Rightarrow> (Inl RpcError, s1, [ListPeersCall])
           | Some peers \<Rightarrow>
               (let s2 = fold (\<lambda>peer. self_write (''<li>'' @ peer @ ''</li>'')) peers s1;
                    s3 = self_write mform2 s2;
                    s4 = self_write (rholang_code s3) s3;
                    s5 = self_write mf3 s4;
                    s6 = self_write (rspace_contents s5) s5;
                    s7 = self_write m4 s6
                in (Inr (), s7, [ListPeersCall])))
      | _ \<Rightarrow> (Inl ValueError, self, []))"

definition post :: "string option \<Rightarrow> RNodeUI \<Rightarrow> (error + unit) \<times> RNodeUI \<times> rpc list" where
  "post rho1 self =
     (case rho1 of
        None \<Rightarrow> (Inl MissingArgumentError, self, [])
      | Some line \<Rightarrow>
          (let s1 = self\<lparr>rholang_code := line\<rparr> in
           case Run (replCh s1) line of
             None \<Rightarrow> (Inl RpcError, s1, [RunCall line])
           | Some output \<Rightarrow>
               (let s2 = s1\<lparr>rspace_contents := replace output '' | '' '' |\<newline>''\<rparr>;
                    (r, s3, calls) = get s2
                in (r, s3, RunCall line # calls))))"

subsection \<open>The application\<close>

text \<open>
  \<open>make_app\<close> builds a Tornado \<open>Application\<close> with the single route \<open>/\<close>, handled by
  \<open>RNodeUI\<close> with the keyword arguments \<open>dict(diagCh=diagCh, replCh=replCh)\<close>, lets it
  listen on the port and returns it with its URL.
\<close>

record Application =
  kwargs_diagCh :: channel
  kwargs_replCh :: channel
  listen_port :: int

definition make_app :: "int \<Rightarrow> channel \<Rightarrow> channel \<Rightarrow> Application \<times> string" where
  "make_app port diagCh' replCh' =
     (let app = \<lparr>kwargs_diagCh = diagCh', kwargs_replCh = replCh', listen_port = port\<rparr>;
          url = ''http://0.0.0.0:'' @ str_int port
      in (app, url))"

text \<open>
  How the application answers a request is Tornado's contract, not code of the module:
  for every request it constructs a new handler object of the routed class, whose
  constructor calls \<open>initialize\<close> with the route's keyword arguments (the documented
  hook, "called for each request"), then calls the method named after the HTTP verb.
  When the method returns, the buffered chunks are the body of the response; when it
  raises, the request ends with an error response.
\<close>

datatype request = GET | POST "string option"

definition serve :: "Application \<Rightarrow> request \<Rightarrow> (error + string) \<times> rpc list" where
  "serve app req =
     (let self = initialize (kwargs_diagCh app) (kwargs_replCh app);
          (r, self', calls) = (case req of GET \<Rightarrow> get self | POST rho1 \<Rightarrow> post rho1 self)
      in (case r of
            Inl e \<Rightarrow> (Inl e, calls)
          | Inr _ \<Rightarrow> (Inr (concat (write_buffer self')), calls)))"

subsection \<open>The command line: \<open>main\<close>\<close>

text \<open>
  The trace of \<open>main\<close>: RPC calls, \<open>print(..., file=stdout)\<close> with the text printed,
  \<open>app.listen(port)\<close> and \<open>IOLoop.current().start()\<close>. The run loop is a parameter:
  \<open>start\<close> either returns, or it blocks for ever and \<open>main\<close> never returns.
\<close>

datatype event = Call rpc | Print string | Listen int | Start

datatype outcome = Returns | Raises error | Blocks

definition main ::
  "string list \<Rightarrow> bool \<Rightarrow> (string \<Rightarrow> channel) \<Rightarrow> int \<Rightarrow> string \<Rightarrow> int \<Rightarrow> outcome \<times> event list"
where
  "main argv start_returns insecure_channel web_port host port =
     (let channel = insecure_channel (host @ '':'' @ str_int port);
          replCh' = channel;
          diagCh' = channel
      in if ''-w'' \<in> set argv then
           (let (app, url) = make_app web_port diagCh' replCh';
                t = [Listen web_port, Print (''rnode web UI at '' @ url), Start]
            in if start_returns then (Raises UnboundLocalError, t) else (Blocks, t))
         else if ''-c'' \<in> set argv then
           (if argv = [] then (Raises IndexError, [])
            else (let line = last argv in
                  case Run replCh' line of
                    None \<Rightarrow> (Raises RpcError, [Call (RunCall line)])
                  | Some output \<Rightarrow> (Returns, [Call (RunCall line), Print output])))
         else
           (if length argv \<le> 1 then (Raises IndexError, [])
            else (let fileName = argv ! 1 in
                  case Eval replCh' fileName of
                    None \<Rightarrow> (Raises RpcError, [Call (EvalCall fileName)])
                  | Some output \<Rightarrow> (Returns, [Call (EvalCall fileName), Print output]))))"



fun calls_of :: "event list \<Rightarrow> rpc list" where
  "calls_of [] = []"
| "calls_of (Call r # t) = r # calls_of t"
| "calls_of (e # t) = calls_of t"

fun prints_of :: "event list \<Rightarrow> string list" where
  "prints_of [] = []"
| "prints_of (Print s # t) = s # prints_of t"
| "prints_of (e # t) = prints_of t"

subsection \<open>Notions used to state the properties\<close>

text \<open>
  The page that \<open>get\<close> writes, as one string: the template with the peer items, the code
  and the store contents at its three insertion points.
\<close>

definition rendered_page :: "string list \<Rightarrow> string \<Rightarrow> string \<Rightarrow> string" where
  "rendered_page peers code store =
     markup_top @ concat (map (\<lambda>peer. ''<li>'' @ peer @ ''</li>'') peers) @
     markup_form @ code @ markup_pre @ store @ markup_end"

text \<open>Python's \<open>t in s\<close> for strings: \<open>t\<close> occurs in \<open>s\<close> at some position.\<close>

fun occurs_in :: "string \<Rightarrow> string \<Rightarrow> bool" where
  "occurs_in t [] = (t = [])"
| "occurs_in t (c # cs) = (startswith (c # cs) t \<or> occurs_in t cs)"

section \<open>Properties\<close>

subsection \<open>The template and the handler's methods\<close>

text \<open>
  Splitting at the first occurrence of the separator, and a string without one.
\<close>

lemma startswith_take: "startswith s t = (take (length t) s = t)"
  by (induction s t rule: startswith.induct) auto

lemma no_match_before_first_occurrence:
  assumes "sep \<noteq> []" and "\<not> occurs_in sep ((c # p) @ butlast sep)"
  shows "\<not> startswith (c # p @ sep @ rest) sep"
proof
  assume "startswith (c # p @ sep @ rest) sep"
  then have "take (length sep) (c # p @ sep @ rest) = sep"
    by (simp add: startswith_take)
  moreover have "c # p @ sep @ rest = (c # p @ butlast sep) @ (last sep # rest)"
    using append_butlast_last_id [OF assms(1)]
    by (metis append_Cons append_Nil append_assoc)
  ultimately have "take (length sep) ((c # p @ butlast sep) @ (last sep # rest)) = sep"
    by simp
  moreover have "length sep \<le> length (c # p @ butlast sep)"
    using assms(1) by (cases sep) auto
  ultimately have "take (length sep) (c # p @ butlast sep) = sep"
    by (simp del: append_Cons append_assoc)
  then have "startswith (c # p @ butlast sep) sep"
    by (simp add: startswith_take)
  with assms(2) show False by simp
qed

lemma split_from_first_occurrence:
  "sep \<noteq> [] \<Longrightarrow> \<not> occurs_in sep (p @ butlast sep) \<Longrightarrow>
   split_from sep (p @ sep @ rest) = p # split_from sep rest"
proof (induction p)
  case Nil
  then obtain c cs where sep: "sep = c # cs" by (cases sep) auto
  have "startswith (sep @ rest) sep" by (simp add: startswith_take)
  then show ?case using sep by simp
next
  case (Cons c p)
  have "\<not> startswith (c # p @ sep @ rest) sep"
    using Cons.prems by (rule no_match_before_first_occurrence)
  moreover have "split_from sep (p @ sep @ rest) = p # split_from sep rest"
    using Cons by simp
  ultimately show ?case by simp
qed

lemma split_from_no_occurrence:
  "sep \<noteq> [] \<Longrightarrow> \<not> occurs_in sep s \<Longrightarrow> split_from sep s = [s]"
  by (induction s) auto

text \<open>The same two facts for \<open>replace\<close>.\<close>

lemma replace_from_unchanged:
  "old \<noteq> [] \<Longrightarrow> \<not> occurs_in old s \<Longrightarrow> replace_from old new s = s"
  by (induction s) auto

lemma replace_from_first_occurrence:
  "old \<noteq> [] \<Longrightarrow> \<not> occurs_in old (p @ butlast old) \<Longrightarrow>
   replace_from old new (p @ old @ rest) = p @ new @ replace_from old new rest"
proof (induction p)
  case Nil
  then obtain c cs where old: "old = c # cs" by (cases old) auto
  have "startswith (old @ rest) old" by (simp add: startswith_take)
  then show ?case using old by simp
next
  case (Cons c p)
  have "\<not> startswith (c # p @ old @ rest) old"
    using Cons.prems by (rule no_match_before_first_occurrence)
  moreover have "replace_from old new (p @ old @ rest) = p @ new @ replace_from old new rest"
    using Cons by simp
  ultimately show ?case by simp
qed

text \<open>
  The template is its four pieces with the marker between them, and no piece holds a
  marker, nor does one begin in a piece and end in the marker that follows.
\<close>

lemma markup_pieces:
  "markup = markup_top @ ''<!-- PART -->'' @ markup_form @ ''<!-- PART -->'' @ markup_pre @
     ''<!-- PART -->'' @ markup_end"
  by (simp add: markup_def markup_top_def markup_form_def markup_pre_def markup_end_def)

lemma no_marker_top: "\<not> occurs_in ''<!-- PART -->'' (markup_top @ butlast ''<!-- PART -->'')"
  by (simp add: markup_top_def)

lemma no_marker_form: "\<not> occurs_in ''<!-- PART -->'' (markup_form @ butlast ''<!-- PART -->'')"
  by (simp add: markup_form_def)

lemma no_marker_pre: "\<not> occurs_in ''<!-- PART -->'' (markup_pre @ butlast ''<!-- PART -->'')"
  by (simp add: markup_pre_def)

lemma no_marker_end: "\<not> occurs_in ''<!-- PART -->'' markup_end"
  by (simp add: markup_end_def)

lemma markup_split:
  "split markup ''<!-- PART -->'' = [markup_top, markup_form, markup_pre, markup_end]"
  unfolding split_def markup_pieces
  by (simp only: split_from_first_occurrence [OF _ no_marker_top]
        split_from_first_occurrence [OF _ no_marker_form]
        split_from_first_occurrence [OF _ no_marker_pre]
        split_from_no_occurrence [OF _ no_marker_end] list.distinct not_False_eq_True)


lemma fold_self_write:
  "fold (\<lambda>peer. self_write (f peer)) peers s =
   s\<lparr>write_buffer := write_buffer s @ map f peers\<rparr>"
  by (induction peers arbitrary: s) (simp_all add: self_write_def)

lemma get_fails:
  "ListPeers (diagCh self) = None \<Longrightarrow>
   get self =
     (Inl RpcError, self\<lparr>write_buffer := write_buffer self @ [markup_top]\<rparr>, [ListPeersCall])"
  by (simp add: get_def markup_split self_write_def)

lemma get_returns:
  "ListPeers (diagCh self) = Some peers \<Longrightarrow>
   get self =
     (Inr (),
      self\<lparr>write_buffer := write_buffer self @ [markup_top] @
         map (\<lambda>peer. ''<li>'' @ peer @ ''</li>'') peers @
         [markup_form, rholang_code self, markup_pre, rspace_contents self, markup_end]\<rparr>,
      [ListPeersCall])"
  by (simp add: get_def markup_split fold_self_write self_write_def Let_def)

lemma post_returns:
  "Run (replCh self) line = Some out \<Longrightarrow> ListPeers (diagCh self) = Some peers \<Longrightarrow>
   post (Some line) self =
     (Inr (),
      self\<lparr>rholang_code := line, rspace_contents := replace out '' | '' '' |\<newline>'',
        write_buffer := write_buffer self @ [markup_top] @
          map (\<lambda>peer. ''<li>'' @ peer @ ''</li>'') peers @
          [markup_form, line, markup_pre, replace out '' | '' '' |\<newline>'', markup_end]\<rparr>,
      [RunCall line, ListPeersCall])"
  by (simp add: post_def get_returns)

lemma post_listpeers_fails:
  "Run (replCh self) line = Some out \<Longrightarrow> ListPeers (diagCh self) = None \<Longrightarrow>
   post (Some line) self =
     (Inl RpcError,
      self\<lparr>rholang_code := line, rspace_contents := replace out '' | '' '' |\<newline>'',
        write_buffer := write_buffer self @ [markup_top]\<rparr>,
      [RunCall line, ListPeersCall])"
  by (simp add: post_def get_fails)

subsection \<open>The replacement leaves no occurrence behind\<close>

lemma replace_from_head_space:
  "replace_from '' | '' '' |\<newline>'' s = CHR '' '' # r \<Longrightarrow> \<exists>s'. s = CHR '' '' # s'"
  by (cases s) (auto split: if_splits)

lemma replace_from_head_bar:
  "replace_from '' | '' '' |\<newline>'' s = CHR ''|'' # r \<Longrightarrow>
   \<exists>s'. s = CHR ''|'' # s' \<and> r = replace_from '' | '' '' |\<newline>'' s'"
  by (cases s) (auto split: if_splits)

lemma startswith_space_bar_space:
  "startswith s '' | '' = (\<exists>s'. s = '' | '' @ s')"
  by (cases s; cases "tl s"; cases "tl (tl s)") auto

lemma replace_from_match:
  "replace_from '' | '' new ('' | '' @ s) = new @ replace_from '' | '' new s"
  by simp

lemma replace_from_no_match:
  "\<not> startswith (c # cs) '' | '' \<Longrightarrow>
   replace_from '' | '' new (c # cs) = c # replace_from '' | '' new cs"
  by auto

lemma occurs_in_transformed_prefix:
  "occurs_in '' | '' ('' |\<newline>'' @ r) = occurs_in '' | '' r"
  by simp

lemma replace_from_no_occurrence:
  "\<not> occurs_in '' | '' (replace_from '' | '' '' |\<newline>'' s)"
proof (induction s rule: length_induct)
  case (1 s)
  show ?case
  proof (cases s)
    case Nil
    then show ?thesis by simp
  next
    case (Cons c cs)
    show ?thesis
    proof (cases "startswith s '' | ''")
      case True
      then obtain s' where s': "s = '' | '' @ s'"
        using startswith_space_bar_space by blast
      then have "length s' < length s" by simp
      with 1 have "\<not> occurs_in '' | '' (replace_from '' | '' '' |\<newline>'' s')" by blast
      then show ?thesis
        unfolding s' replace_from_match occurs_in_transformed_prefix .
    next
      case False
      have ih: "\<not> occurs_in '' | '' (replace_from '' | '' '' |\<newline>'' cs)"
        using 1 Cons by simp
      have step:
        "replace_from '' | '' '' |\<newline>'' s = c # replace_from '' | '' '' |\<newline>'' cs"
        using False unfolding Cons by (rule replace_from_no_match)
      have "\<not> startswith (c # replace_from '' | '' '' |\<newline>'' cs) '' | ''"
      proof
        assume "startswith (c # replace_from '' | '' '' |\<newline>'' cs) '' | ''"
        then obtain r where c: "c = CHR '' ''"
          and r: "replace_from '' | '' '' |\<newline>'' cs = CHR ''|'' # CHR '' '' # r"
          unfolding startswith_space_bar_space by auto
        from replace_from_head_bar [OF r] obtain s' where cs: "cs = CHR ''|'' # s'"
          and r': "replace_from '' | '' '' |\<newline>'' s' = CHR '' '' # r"
          by auto
        from replace_from_head_space [OF r'] obtain s'' where "s' = CHR '' '' # s''"
          by auto
        with c cs Cons have "startswith s '' | ''" by simp
        with False show False by simp
      qed
      with ih show ?thesis unfolding step by simp
    qed
  qed
qed

lemma replace_no_occurrence:
  "\<not> occurs_in '' | '' (replace s '' | '' '' |\<newline>'')"
  by (simp add: replace_def replace_from_no_occurrence)

section \<open>The web UI\<close>

text \<open>
  Claim C1, as stated: a GET request that follows a successful POST renders the code and
  the transformed store contents of that POST, and the two session strings live as long
  as the server process. The code does not do this. The two strings are attributes of
  the handler object, \<open>initialize\<close> sets both to the empty string, and the application
  makes a new handler for every request: after the POST of \<open>x\<close> below, whose own page
  shows \<open>x\<close> and the output \<open>y\<close>, the next GET shows neither.
\<close>

theorem get_after_post_renders_empty_session:
  "fst (serve (fst (make_app 8888
       \<lparr>Run = [''x'' \<mapsto> ''y''], Eval = Map.empty, ListPeers = Some []\<rparr>
       \<lparr>Run = [''x'' \<mapsto> ''y''], Eval = Map.empty, ListPeers = Some []\<rparr>))
     (POST (Some ''x''))) = Inr (rendered_page [] ''x'' ''y'')
   \<and> fst (serve (fst (make_app 8888
       \<lparr>Run = [''x'' \<mapsto> ''y''], Eval = Map.empty, ListPeers = Some []\<rparr>
       \<lparr>Run = [''x'' \<mapsto> ''y''], Eval = Map.empty, ListPeers = Some []\<rparr>)) GET)
     = Inr (rendered_page [] [] [])
   \<and> rendered_page [] [] [] \<noteq> rendered_page [] ''x'' ''y''"
  by (simp add: serve_def make_app_def initialize_def post_returns get_returns
        rendered_page_def replace_def markup_pre_def)

text \<open>
  Claim C1, amended: the page sent in answer to a successful POST itself (the handler
  calls its own \<open>get\<close> before it returns) holds exactly the submitted code and the
  transformed output of that POST, after one Run call and one ListPeers call; a GET
  request is answered by a handler of its own and renders both strings empty, whatever
  was posted before: the strings live for one request.
\<close>

theorem post_response_renders_submission:
  assumes "Run (kwargs_replCh app) line = Some out"
      and "ListPeers (kwargs_diagCh app) = Some peers"
  shows "serve app (POST (Some line)) =
           (Inr (rendered_page peers line (replace out '' | '' '' |\<newline>'')),
            [RunCall line, ListPeersCall])
       \<and> serve app GET = (Inr (rendered_page peers [] []), [ListPeersCall])"
  using assms
  by (simp add: serve_def initialize_def post_returns get_returns rendered_page_def)

theorem post_response_renders_submission_witness:
  "serve (fst (make_app 8888
       \<lparr>Run = [''x'' \<mapsto> ''a | b''], Eval = Map.empty, ListPeers = Some [''p1'']\<rparr>
       \<lparr>Run = [''x'' \<mapsto> ''a | b''], Eval = Map.empty, ListPeers = Some [''p1'']\<rparr>))
     (POST (Some ''x'')) =
     (Inr (rendered_page [''p1''] ''x'' ''a |\<newline>b''), [RunCall ''x'', ListPeersCall])
   \<and> serve (fst (make_app 8888
       \<lparr>Run = [''x'' \<mapsto> ''a | b''], Eval = Map.empty, ListPeers = Some [''p1'']\<rparr>
       \<lparr>Run = [''x'' \<mapsto> ''a | b''], Eval = Map.empty, ListPeers = Some [''p1'']\<rparr>))
     GET = (Inr (rendered_page [''p1''] [] []), [ListPeersCall])"
  using post_response_renders_submission [of "fst (make_app 8888
       \<lparr>Run = [''x'' \<mapsto> ''a | b''], Eval = Map.empty, ListPeers = Some [''p1'']\<rparr>
       \<lparr>Run = [''x'' \<mapsto> ''a | b''], Eval = Map.empty, ListPeers = Some [''p1'']\<rparr>)"
       "''x''" "''a | b''" "[''p1'']"]
  by (simp add: make_app_def replace_def)




text \<open>
  Claim C3: when the Run call of a POST fails, \<open>rholang_code\<close> has already been set to
  the submitted code, \<open>rspace_contents\<close> keeps the value it had before the POST, and
  the failure leaves \<open>post\<close> as the RPC error. Nothing else of the handler changes:
  nothing is written and ListPeers is not called.
\<close>

theorem post_run_failure_keeps_store:
  "Run (replCh self) line = None \<Longrightarrow>
   post (Some line) self = (Inl RpcError, self\<lparr>rholang_code := line\<rparr>, [RunCall line])"
  by (simp add: post_def)

theorem post_run_failure_keeps_store_witness:
  "post (Some ''new'')
     \<lparr>diagCh = \<lparr>Run = Map.empty, Eval = Map.empty, ListPeers = Some []\<rparr>,
      replCh = \<lparr>Run = Map.empty, Eval = Map.empty, ListPeers = Some []\<rparr>,
      rholang_code = ''old'', rspace_contents = ''stale'', write_buffer = []\<rparr> =
   (Inl RpcError,
     \<lparr>diagCh = \<lparr>Run = Map.empty, Eval = Map.empty, ListPeers = Some []\<rparr>,
      replCh = \<lparr>Run = Map.empty, Eval = Map.empty, ListPeers = Some []\<rparr>,
      rholang_code = ''new'', rspace_contents = ''stale'', write_buffer = []\<rparr>,
    [RunCall ''new''])"
  using post_run_failure_keeps_store
    [of "\<lparr>diagCh = \<lparr>Run = Map.empty, Eval = Map.empty, ListPeers = Some []\<rparr>,
      replCh = \<lparr>Run = Map.empty, Eval = Map.empty, ListPeers = Some []\<rparr>,
      rholang_code = ''old'', rspace_contents = ''stale'', write_buffer = []\<rparr>" "''new''"]
  by simp

text \<open>
  Claim C6: whatever string the Run call of a POST returns as its output, the handler
  stores it with every occurrence of space-bar-space replaced by space-bar-newline
  (found from the left, as \<open>str.replace\<close> does), whether or not the ListPeers call that
  follows succeeds. No occurrence of space-bar-space is left in the stored string, and
  the output of the example is stored with its two bars followed by line breaks.
\<close>

theorem post_stores_transformed_output:
  "Run (replCh self) line = Some out \<Longrightarrow>
   rspace_contents (fst (snd (post (Some line) self))) = replace out '' | '' '' |\<newline>''
   \<and> \<not> occurs_in '' | '' (rspace_contents (fst (snd (post (Some line) self))))
   \<and> replace (''@'' @ ''{x}!(2) | for(...) { Nil } | for(...) { Nil }'') '' | '' '' |\<newline>'' =
       ''@'' @ ''{x}!(2) |\<newline>for(...) { Nil } |\<newline>for(...) { Nil }''"
proof -
  assume run: "Run (replCh self) line = Some out"
  have "rspace_contents (fst (snd (post (Some line) self))) = replace out '' | '' '' |\<newline>''"
    by (cases "ListPeers (diagCh self)")
       (simp_all add: post_returns [OF run] post_listpeers_fails [OF run])
  moreover have
    "replace (''@'' @ ''{x}!(2) | for(...) { Nil } | for(...) { Nil }'') '' | '' '' |\<newline>'' =
       ''@'' @ ''{x}!(2) |\<newline>for(...) { Nil } |\<newline>for(...) { Nil }''"
    by (simp add: replace_def)
  ultimately show ?thesis
    by (simp add: replace_no_occurrence)
qed

theorem post_stores_transformed_output_witness:
  "rspace_contents (fst (snd (post (Some ''new x in { x!(1 + 1) }'')
     \<lparr>diagCh = \<lparr>Run = Map.empty, Eval = Map.empty, ListPeers = Some []\<rparr>,
      replCh = \<lparr>Run = [''new x in { x!(1 + 1) }'' \<mapsto>
                       (''@'' @ ''{x}!(2) | for(...) { Nil } | for(...) { Nil }'')],
                Eval = Map.empty, ListPeers = Some []\<rparr>,
      rholang_code = [], rspace_contents = [], write_buffer = []\<rparr>))) =
   ''@'' @ ''{x}!(2) |\<newline>for(...) { Nil } |\<newline>for(...) { Nil }''"
  using post_stores_transformed_output
    [of "\<lparr>diagCh = \<lparr>Run = Map.empty, Eval = Map.empty, ListPeers = Some []\<rparr>,
      replCh = \<lparr>Run = [''new x in { x!(1 + 1) }'' \<mapsto>
                       (''@'' @ ''{x}!(2) | for(...) { Nil } | for(...) { Nil }'')],
                Eval = Map.empty, ListPeers = Some []\<rparr>,
      rholang_code = [], rspace_contents = [], write_buffer = []\<rparr>"
      "''new x in { x!(1 + 1) }''" "(''@'' @ ''{x}!(2) | for(...) { Nil } | for(...) { Nil }'')"]
  by simp

text \<open>
  Claim C9: a POST that succeeds makes exactly two RPC calls, Run and then ListPeers
  (\<open>post\<close> ends by calling \<open>get\<close>), and its page lists the peers that this ListPeers call
  returned. When Run succeeds and ListPeers fails, the POST fails with the RPC error
  although both strings of the handler have been updated.
\<close>

theorem post_calls_run_then_listpeers:
  "(post rho1 self = (Inr (), self', calls) \<longrightarrow>
      (\<exists>line out peers. rho1 = Some line \<and> Run (replCh self) line = Some out \<and>
         ListPeers (diagCh self) = Some peers \<and> calls = [RunCall line, ListPeersCall] \<and>
         write_buffer self' = write_buffer self @ [markup_top] @
           map (\<lambda>peer. ''<li>'' @ peer @ ''</li>'') peers @
           [markup_form, line, markup_pre, replace out '' | '' '' |\<newline>'', markup_end]))
   \<and> (Run (replCh self) line = Some out \<and> ListPeers (diagCh self) = None \<longrightarrow>
        post (Some line) self =
          (Inl RpcError,
           self\<lparr>rholang_code := line, rspace_contents := replace out '' | '' '' |\<newline>'',
             write_buffer := write_buffer self @ [markup_top]\<rparr>,
           [RunCall line, ListPeersCall]))"
proof (intro conjI impI)
  assume ok: "post rho1 self = (Inr (), self', calls)"
  then obtain line where rho1: "rho1 = Some line"
    by (cases rho1) (simp_all add: post_def)
  from ok rho1 obtain out where run: "Run (replCh self) line = Some out"
    by (cases "Run (replCh self) line") (simp_all add: post_def)
  from ok rho1 run obtain peers where peers: "ListPeers (diagCh self) = Some peers"
    by (cases "ListPeers (diagCh self)") (simp_all add: post_listpeers_fails)
  from ok rho1 run peers
  show "\<exists>line out peers. rho1 = Some line \<and> Run (replCh self) line = Some out \<and>
         ListPeers (diagCh self) = Some peers \<and> calls = [RunCall line, ListPeersCall] \<and>
         write_buffer self' = write_buffer self @ [markup_top] @
           map (\<lambda>peer. ''<li>'' @ peer @ ''</li>'') peers @
           [markup_form, line, markup_pre, replace out '' | '' '' |\<newline>'', markup_end]"
    using post_returns [OF run peers] by auto
next
  assume "Run (replCh self) line = Some out \<and> ListPeers (diagCh self) = None"
  then show "post (Some line) self =
          (Inl RpcError,
           self\<lparr>rholang_code := line, rspace_contents := replace out '' | '' '' |\<newline>'',
             write_buffer := write_buffer self @ [markup_top]\<rparr>,
           [RunCall line, ListPeersCall])"
    by (simp add: post_listpeers_fails)
qed

theorem post_calls_run_then_listpeers_witness:
  "post (Some ''x'')
     \<lparr>diagCh = \<lparr>Run = Map.empty, Eval = Map.empty, ListPeers = Some [''p1'', ''p2'']\<rparr>,
      replCh = \<lparr>Run = [''x'' \<mapsto> ''a | b''], Eval = Map.empty, ListPeers = None\<rparr>,
      rholang_code = [], rspace_contents = [], write_buffer = []\<rparr> =
   (Inr (),
     \<lparr>diagCh = \<lparr>Run = Map.empty, Eval = Map.empty, ListPeers = Some [''p1'', ''p2'']\<rparr>,
      replCh = \<lparr>Run = [''x'' \<mapsto> ''a | b''], Eval = Map.empty, ListPeers = None\<rparr>,
      rholang_code = ''x'', rspace_contents = ''a |\<newline>b'',
      write_buffer = [markup_top, ''<li>p1</li>'', ''<li>p2</li>'', markup_form, ''x'',
        markup_pre, ''a |\<newline>b'', markup_end]\<rparr>,
    [RunCall ''x'', ListPeersCall])
   \<and> post (Some ''x'')
     \<lparr>diagCh = \<lparr>Run = Map.empty, Eval = Map.empty, ListPeers = None\<rparr>,
      replCh = \<lparr>Run = [''x'' \<mapsto> ''a | b''], Eval = Map.empty, ListPeers = None\<rparr>,
      rholang_code = [], rspace_contents = [], write_buffer = []\<rparr> =
   (Inl RpcError,
     \<lparr>diagCh = \<lparr>Run = Map.empty, Eval = Map.empty, ListPeers = None\<rparr>,
      replCh = \<lparr>Run = [''x'' \<mapsto> ''a | b''], Eval = Map.empty, ListPeers = None\<rparr>,
      rholang_code = ''x'', rspace_contents = ''a |\<newline>b'', write_buffer = [markup_top]\<rparr>,
    [RunCall ''x'', ListPeersCall])"
proof -
  let ?ok = "\<lparr>diagCh = \<lparr>Run = Map.empty, Eval = Map.empty, ListPeers = Some [''p1'', ''p2'']\<rparr>,
      replCh = \<lparr>Run = [''x'' \<mapsto> ''a | b''], Eval = Map.empty, ListPeers = None\<rparr>,
      rholang_code = [], rspace_contents = [], write_buffer = []\<rparr>"
  let ?bad = "\<lparr>diagCh = \<lparr>Run = Map.empty, Eval = Map.empty, ListPeers = None\<rparr>,
      replCh = \<lparr>Run = [''x'' \<mapsto> ''a | b''], Eval = Map.empty, ListPeers = None\<rparr>,
      rholang_code = [], rspace_contents = [], write_buffer = []\<rparr>"
  obtain r h calls where p: "post (Some ''x'') ?ok = (r, h, calls)"
    by (cases "post (Some ''x'') ?ok") blast
  have r: "r = Inr ()"
    using p by (simp add: post_returns [of ?ok "''x''" "''a | b''" "[''p1'', ''p2'']"])
  have "calls = [RunCall ''x'', ListPeersCall]"
    using post_calls_run_then_listpeers [of "Some ''x''" ?ok h calls "''x''" "''a | b''"] p r
    by simp
  then show ?thesis
    using p r post_calls_run_then_listpeers [of "Some ''x''" ?bad h calls "''x''" "''a | b''"]
    by (simp add: post_returns [of ?ok "''x''" "''a | b''" "[''p1'', ''p2'']"] replace_def)
qed

section \<open>The command line\<close>

text \<open>
  Claim C4: when the arguments hold \<open>-c\<close> and no \<open>-w\<close>, the one RPC call of the program
  is Run with the last argument as the line of its request, wherever \<open>-c\<close> stands and
  whatever follows it.
\<close>

theorem inline_code_is_last_argument:
  "''-c'' \<in> set argv \<Longrightarrow> ''-w'' \<notin> set argv \<Longrightarrow>
   calls_of (snd (main argv start_returns insecure_channel web_port host port)) =
     [RunCall (last argv)]"
  by (auto simp: main_def Let_def split: option.splits)

theorem inline_code_is_last_argument_witness:
  "calls_of (snd (main [''prog'', ''-c'', ''foo'', ''new x in { x!(1+1) }''] False
       (\<lambda>target. \<lparr>Run = Map.empty, Eval = Map.empty, ListPeers = None\<rparr>)
       8888 ''127.0.0.1'' 50000)) =
     [RunCall ''new x in { x!(1+1) }'']"
  using inline_code_is_last_argument
    [of "[''prog'', ''-c'', ''foo'', ''new x in { x!(1+1) }'']" False
       "\<lambda>target. \<lparr>Run = Map.empty, Eval = Map.empty, ListPeers = None\<rparr>"
       8888 "''127.0.0.1''" 50000]
  by simp



text \<open>
  Claim C7: with no \<open>-w\<close>, no \<open>-c\<close> and no argument at index 1, the program fails before
  it makes any RPC call and prints nothing. The failure is the \<open>IndexError\<close> that
  \<open>argv[1]\<close> raises, which nothing catches: this is the error the specification calls
  InvalidUsage.
\<close>

theorem file_mode_missing_argument:
  "''-w'' \<notin> set argv \<Longrightarrow> ''-c'' \<notin> set argv \<Longrightarrow> length argv \<le> 1 \<Longrightarrow>
   main argv start_returns insecure_channel web_port host port = (Raises IndexError, [])"
  by (simp add: main_def)

theorem file_mode_missing_argument_witness:
  "main [''prog''] False
       (\<lambda>target. \<lparr>Run = (\<lambda>line. Some ''out''), Eval = (\<lambda>fileName. Some ''out''),
                   ListPeers = Some []\<rparr>)
       8888 ''127.0.0.1'' 50000 = (Raises IndexError, [])"
  using file_mode_missing_argument [of "[''prog'']" False
       "\<lambda>target. \<lparr>Run = (\<lambda>line. Some ''out''), Eval = (\<lambda>fileName. Some ''out''),
                   ListPeers = Some []\<rparr>"
       8888 "''127.0.0.1''" 50000]
  by simp







section \<open>Further properties\<close>

text \<open>
  \<open>replace\<close> is Python's: a string in which \<open>old\<close> does not occur is returned as it
  is, and at the first occurrence of \<open>old\<close> the text before it is kept, \<open>new\<close> is put
  in its place and the replacement goes on in the text behind it.
\<close>

theorem replace_characterised:
  "(old \<noteq> [] \<and> \<not> occurs_in old s \<longrightarrow> replace s old new = s)
   \<and> (old \<noteq> [] \<and> \<not> occurs_in old (p @ butlast old) \<longrightarrow>
        replace (p @ old @ rest) old new = p @ new @ replace rest old new)"
  by (simp add: replace_def replace_from_unchanged replace_from_first_occurrence)

theorem replace_characterised_witness:
  "replace ''a|b'' '' | '' '' |\<newline>'' = ''a|b''
   \<and> replace (''a'' @ '' | '' @ ''b | c'') '' | '' '' |\<newline>'' =
       ''a'' @ '' |\<newline>'' @ replace ''b | c'' '' | '' '' |\<newline>''"
  using replace_characterised [of "'' | ''" "''a|b''" "'' |\<newline>''" "''a''" "''b | c''"]
  by simp

text \<open>
  A POST without the form field \<open>rho1\<close> is rejected before any RPC call, and the handler
  is left as it was.
\<close>

theorem post_missing_field:
  "post None self = (Inl MissingArgumentError, self, [])"
  by (simp add: post_def)

text \<open>
  In the inline and the file mode, a run whose RPC call fails prints nothing; the
  failed call is the only one it made.
\<close>

theorem cli_rpc_failure_prints_nothing:
  "''-w'' \<notin> set argv \<Longrightarrow>
   fst (main argv start_returns insecure_channel web_port host port) = Raises RpcError \<Longrightarrow>
   prints_of (snd (main argv start_returns insecure_channel web_port host port)) = []
   \<and> length (calls_of (snd (main argv start_returns insecure_channel web_port host port))) = 1"
  by (auto simp: main_def Let_def split: if_splits option.splits)

theorem cli_rpc_failure_prints_nothing_witness:
  "main [''prog'', ''contract1.rho''] False
       (\<lambda>target. \<lparr>Run = Map.empty, Eval = Map.empty, ListPeers = None\<rparr>)
       8888 ''127.0.0.1'' 50000 = (Raises RpcError, [Call (EvalCall ''contract1.rho'')])
   \<and> prints_of (snd (main [''prog'', ''contract1.rho''] False
       (\<lambda>target. \<lparr>Run = Map.empty, Eval = Map.empty, ListPeers = None\<rparr>)
       8888 ''127.0.0.1'' 50000)) = []"
  using cli_rpc_failure_prints_nothing [of "[''prog'', ''contract1.rho'']" False
       "\<lambda>target. \<lparr>Run = Map.empty, Eval = Map.empty, ListPeers = None\<rparr>"
       8888 "''127.0.0.1''" 50000]
  by (simp add: main_def)

end
